theory Spec2Isabelle
  imports Complex_Main "HOL-Library.Word" "HOL-Library.AList" "HOL-Library.Signed_Division"
begin

unbundle bit_operations_syntax

section \<open>The connection engine of protocol.go\<close>

text \<open>
  The Go source keeps one \<^verbatim>\<open>Connection\<close> struct that several goroutines share under a
  \<^verbatim>\<open>sync.RWMutex\<close>. The embedding passes the whole state explicitly: the struct's
  fields, the lock, the heap of channels made by \<^verbatim>\<open>make(chan asyncResult)\<close>, and what the
  engine has done to its collaborators (receiver callbacks, buffers returned to the pool).
  Every Go statement that touches the state is one step in a state-and-failure monad whose
  outcomes are: finished, panicked, or cannot proceed at this point (a lock that is held,
  a receive on a channel that has neither a value nor been closed).
  What the environment decides (the outcome of a codec call, of a flush, the clock, what the
  receiver answers) is a parameter of the function that asks for it.
\<close>

subsection \<open>Data\<close>

type_synonym byte = "8 word"
type_synonym time = int
type_synonym duration = "64 word"

datatype error = ErrClosed | ErrOther string

record BlockInfo =
  Length :: "32 word"
  Hash :: "byte list"

record FileInfo =
  Name :: string
  Flags :: "32 word"
  Modified :: "64 word"
  Blocks :: "BlockInfo list"

definition messageTypeReserved :: int where "messageTypeReserved = 0"
definition messageTypeIndex :: int where "messageTypeIndex = 1"
definition messageTypeRequest :: int where "messageTypeRequest = 2"
definition messageTypeResponse :: int where "messageTypeResponse = 3"
definition messageTypePing :: int where "messageTypePing = 4"
definition messageTypePong :: int where "messageTypePong = 5"

text \<open>
  Modelled from the spec: the \<^verbatim>\<open>header\<close> and \<^verbatim>\<open>request\<close> structs are declared in
  files of the repository that are not part of the reviewed source; protocol.go builds
  them positionally as \<^verbatim>\<open>header{0, id, kind}\<close> and \<^verbatim>\<open>request{name, offset, size, hash}\<close>
  and reads the fields \<^verbatim>\<open>version\<close>, \<^verbatim>\<open>msgID\<close>, \<^verbatim>\<open>msgType\<close>.
\<close>

record header =
  version :: int
  msgID :: int
  msgType :: int

record request =
  req_name :: string
  req_offset :: "64 word"
  req_size :: "32 word"
  req_hash :: "byte list"

record asyncResult =
  val :: "byte list"
  err :: "error option"

text \<open>
  An unbuffered channel of \<^verbatim>\<open>asyncResult\<close>: the values handed over to its (single)
  receiver so far, and whether it has been closed.
\<close>

record chan =
  sent :: "asyncResult list"
  chclosed :: bool

datatype mutex = Free | Excl | Shared nat

text \<open>
  Modelled from the spec: \<^verbatim>\<open>marshalReader\<close> and \<^verbatim>\<open>marshalWriter\<close> (the wire codec) are
  not in the reviewed source. Per direction the codec keeps a cumulative byte counter
  \<^verbatim>\<open>tot\<close> and a sticky error \<^verbatim>\<open>err\<close>: once an operation has failed, every later operation
  is a no-op that keeps the first error. The writer also records the calls that took effect.
\<close>

datatype wcall =
    WHeader header
  | WUint32Header header
  | WIndex "FileInfo list"
  | WRequest request
  | WResponse "byte list"

datatype wres = WFail error | WOk int

datatype 'a rd = RdFail error | RdOk 'a int

record marshalReader =
  rtot :: int
  rerr :: "error option"

record marshalWriter =
  wout :: "wcall list"
  wtot :: int
  werr :: "error option"

datatype call =
    CallIndex string "FileInfo list"
  | CallRequest string string "64 word" "32 word" "byte list"
  | CallClose string

record Statistics =
  At :: time
  InBytesTotal :: int
  InBytesPerSec :: int
  OutBytesTotal :: int
  OutBytesPerSec :: int
  Latency :: duration

text \<open>
  The \<^verbatim>\<open>Connection\<close> struct. \<^verbatim>\<open>awaiting\<close> is a Go map that \<^verbatim>\<open>close()\<close> sets to
  \<^verbatim>\<open>nil\<close>: \<open>None\<close> is the nil map, \<open>Some m\<close> a map held as an association list from
  correlation IDs to channel references. The last three fields are the surroundings of the
  struct: the channels allocated so far, the calls made on the receiver, and the buffers
  handed to \<^verbatim>\<open>buffers.Put\<close>.
\<close>

record Connection =
  mutex :: mutex
  ID :: string
  mreader :: marshalReader
  mwriter :: marshalWriter
  closed :: bool
  awaiting :: "(int \<times> nat) list option"
  nextId :: int
  lastReceive :: time
  peerLatency :: duration
  lastStatistics :: Statistics
  chans :: "chan list"
  calls :: "call list"
  pool :: "byte list list"

subsection \<open>Steps\<close>

datatype 'a outcome = Done 'a | Panic | Blocked

type_synonym 'a prog = "Connection \<Rightarrow> ('a \<times> Connection) outcome"

definition ret :: "'a \<Rightarrow> 'a prog" where
  "ret x = (\<lambda>c. Done (x, c))"

definition seq :: "'a prog \<Rightarrow> ('a \<Rightarrow> 'b prog) \<Rightarrow> 'b prog" where
  "seq m f = (\<lambda>c. case m c of Done (x, c') \<Rightarrow> f x c' | Panic \<Rightarrow> Panic | Blocked \<Rightarrow> Blocked)"

definition gets :: "(Connection \<Rightarrow> 'a) \<Rightarrow> 'a prog" where
  "gets f = (\<lambda>c. Done (f c, c))"

definition modify :: "(Connection \<Rightarrow> Connection) \<Rightarrow> unit prog" where
  "modify f = (\<lambda>c. Done ((), f c))"

text \<open>\<^verbatim>\<open>sync.RWMutex\<close>: the lock is not reentrant, unlocking a lock that is not held is fatal.\<close>

definition Lock :: "unit prog" where
  "Lock = (\<lambda>c. case mutex c of Free \<Rightarrow> Done ((), c\<lparr>mutex := Excl\<rparr>) | _ \<Rightarrow> Blocked)"

definition Unlock :: "unit prog" where
  "Unlock = (\<lambda>c. case mutex c of Excl \<Rightarrow> Done ((), c\<lparr>mutex := Free\<rparr>) | _ \<Rightarrow> Panic)"

definition RLock :: "unit prog" where
  "RLock = (\<lambda>c. case mutex c of
      Free \<Rightarrow> Done ((), c\<lparr>mutex := Shared 1\<rparr>)
    | Shared n \<Rightarrow> Done ((), c\<lparr>mutex := Shared (Suc n)\<rparr>)
    | Excl \<Rightarrow> Blocked)"

definition RUnlock :: "unit prog" where
  "RUnlock = (\<lambda>c. case mutex c of
      Shared n \<Rightarrow> (if n \<le> 1 then Done ((), c\<lparr>mutex := Free\<rparr>) else Done ((), c\<lparr>mutex := Shared (n - 1)\<rparr>))
    | _ \<Rightarrow> Panic)"

text \<open>Channels: \<^verbatim>\<open>make\<close>, send, \<^verbatim>\<open>close\<close> and receive, with Go's panics.\<close>

definition make_chan :: "nat prog" where
  "make_chan = (\<lambda>c. Done (length (chans c), c\<lparr>chans := chans c @ [\<lparr>sent = [], chclosed = False\<rparr>]\<rparr>))"

definition chan_send :: "nat \<Rightarrow> asyncResult \<Rightarrow> unit prog" where
  "chan_send rc v = (\<lambda>c.
     if rc < length (chans c) then
       (if chclosed (chans c ! rc) then Panic
        else Done ((), c\<lparr>chans := (chans c)[rc := (chans c ! rc)\<lparr>sent := sent (chans c ! rc) @ [v]\<rparr>]\<rparr>))
     else Blocked)"

definition chan_close :: "nat \<Rightarrow> unit prog" where
  "chan_close rc = (\<lambda>c.
     if rc < length (chans c) then
       (if chclosed (chans c ! rc) then Panic
        else Done ((), c\<lparr>chans := (chans c)[rc := (chans c ! rc)\<lparr>chclosed := True\<rparr>]\<rparr>))
     else Panic)"

definition chan_recv :: "nat \<Rightarrow> (asyncResult \<times> bool) prog" where
  "chan_recv rc = (\<lambda>c.
     if rc < length (chans c) then
       (case sent (chans c ! rc) of
          v # _ \<Rightarrow> Done ((v, True), c)
        | [] \<Rightarrow> (if chclosed (chans c ! rc) then Done ((\<lparr>val = [], err = None\<rparr>, False), c) else Blocked))
     else Blocked)"

text \<open>The codec's operations, each with the outcome the transport gives it.\<close>

definition mw_write :: "wcall \<Rightarrow> wres \<Rightarrow> marshalWriter \<Rightarrow> marshalWriter" where
  "mw_write k r mw =
     (case werr mw of
        Some e \<Rightarrow> mw
      | None \<Rightarrow> (case r of
          WFail e \<Rightarrow> mw\<lparr>werr := Some e\<rparr>
        | WOk n \<Rightarrow> mw\<lparr>wout := wout mw @ [k], wtot := wtot mw + n\<rparr>))"

definition codec_write :: "wcall \<Rightarrow> wres \<Rightarrow> unit prog" where
  "codec_write k r = modify (\<lambda>c. c\<lparr>mwriter := mw_write k r (mwriter c)\<rparr>)"

definition mr_read :: "'a \<Rightarrow> 'a rd \<Rightarrow> 'a prog" where
  "mr_read zero r = (\<lambda>c.
     case rerr (mreader c) of
       Some e \<Rightarrow> Done (zero, c)
     | None \<Rightarrow> (case r of
         RdFail e \<Rightarrow> Done (zero, c\<lparr>mreader := (mreader c)\<lparr>rerr := Some e\<rparr>\<rparr>)
       | RdOk x n \<Rightarrow> Done (x, c\<lparr>mreader := (mreader c)\<lparr>rtot := rtot (mreader c) + n\<rparr>\<rparr>)))"

text \<open>\<^verbatim>\<open>flush\<close>: the flate writer is a flusher, the error is the transport's.\<close>

definition flush :: "error option \<Rightarrow> (error option) prog" where
  "flush fr = ret fr"

subsection \<open>close\<close>

fun close_chans :: "nat list \<Rightarrow> unit prog" where
  "close_chans [] = ret ()"
| "close_chans (ch # chs) = seq (chan_close ch) (\<lambda>_. close_chans chs)"

definition range_awaiting :: "Connection \<Rightarrow> nat list" where
  "range_awaiting c = (case awaiting c of None \<Rightarrow> [] | Some m \<Rightarrow> map snd m)"

definition receiver_Close :: "unit prog" where
  "receiver_Close = modify (\<lambda>c. c\<lparr>calls := calls c @ [CallClose (ID c)]\<rparr>)"

definition close_locked :: "bool prog" where
  "close_locked =
     seq Lock (\<lambda>_.
     seq (gets closed) (\<lambda>cl.
       if cl then seq Unlock (\<lambda>_. ret False)
       else
         seq (modify (\<lambda>c. c\<lparr>closed := True\<rparr>)) (\<lambda>_.
         seq (gets range_awaiting) (\<lambda>chs.
         seq (close_chans chs) (\<lambda>_.
         seq (modify (\<lambda>c. c\<lparr>awaiting := None\<rparr>)) (\<lambda>_.
         seq Unlock (\<lambda>_. ret True)))))))"

definition close :: "unit prog" where
  "close = seq close_locked (\<lambda>first. if first then receiver_Close else ret ())"

definition isClosed :: "bool prog" where
  "isClosed = seq RLock (\<lambda>_. seq (gets closed) (\<lambda>cl. seq RUnlock (\<lambda>_. ret cl)))"

subsection \<open>Index, Request, Ping, Stop\<close>

definition advance_nextId :: "unit prog" where
  "advance_nextId = modify (\<lambda>c. c\<lparr>nextId := (nextId c + 1) AND 0xfff\<rparr>)"

text \<open>\<^verbatim>\<open>c.awaiting[c.nextId] = rc\<close>: an assignment to an entry of a nil map panics.\<close>

definition awaiting_store :: "nat \<Rightarrow> unit prog" where
  "awaiting_store rc = (\<lambda>c.
     case awaiting c of
       None \<Rightarrow> Panic
     | Some m \<Rightarrow> Done ((), c\<lparr>awaiting := Some (AList.update (nextId c) rc m)\<rparr>))"

definition Index :: "FileInfo list \<Rightarrow> wres \<Rightarrow> wres \<Rightarrow> error option \<Rightarrow> unit prog" where
  "Index idx wr1 wr2 fr =
     seq Lock (\<lambda>_.
     seq (gets nextId) (\<lambda>n.
     seq (codec_write (WHeader \<lparr>version = 0, msgID = n, msgType = messageTypeIndex\<rparr>) wr1) (\<lambda>_.
     seq (codec_write (WIndex idx) wr2) (\<lambda>_.
     seq (flush fr) (\<lambda>e.
     seq advance_nextId (\<lambda>_.
     seq Unlock (\<lambda>_.
     seq (gets (\<lambda>c. werr (mwriter c))) (\<lambda>we.
       if e \<noteq> None \<or> we \<noteq> None then close else ret ()))))))))"

text \<open>
  \<^verbatim>\<open>Request\<close> up to the point where it either returns or starts to wait on its channel
  (lines 111 to 128), and the receive that follows (lines 130 to 134).
\<close>

datatype request_phase = Returned "byte list" "error option" | Waiting nat

definition Request_send ::
  "string \<Rightarrow> 64 word \<Rightarrow> 32 word \<Rightarrow> byte list \<Rightarrow> wres \<Rightarrow> wres \<Rightarrow> error option \<Rightarrow> request_phase prog" where
  "Request_send name off sz hsh wr1 wr2 fr =
     seq Lock (\<lambda>_.
     seq make_chan (\<lambda>rc.
     seq (awaiting_store rc) (\<lambda>_.
     seq (gets nextId) (\<lambda>n.
     seq (codec_write (WHeader \<lparr>version = 0, msgID = n, msgType = messageTypeRequest\<rparr>) wr1) (\<lambda>_.
     seq (codec_write (WRequest \<lparr>req_name = name, req_offset = off, req_size = sz, req_hash = hsh\<rparr>) wr2) (\<lambda>_.
     seq (gets (\<lambda>c. werr (mwriter c))) (\<lambda>we.
       if we \<noteq> None then
         seq Unlock (\<lambda>_.
         seq close (\<lambda>_.
         seq (gets (\<lambda>c. werr (mwriter c))) (\<lambda>we'. ret (Returned [] we'))))
       else
         seq (flush fr) (\<lambda>e.
           if e \<noteq> None then
             seq Unlock (\<lambda>_.
             seq close (\<lambda>_. ret (Returned [] e)))
           else
             seq advance_nextId (\<lambda>_.
             seq Unlock (\<lambda>_. ret (Waiting rc)))))))))))"

definition Request_recv :: "nat \<Rightarrow> (byte list \<times> error option) prog" where
  "Request_recv rc =
     seq (chan_recv rc) (\<lambda>(res, ok).
       if \<not> ok then ret ([], Some ErrClosed) else ret (val res, err res))"

text \<open>
  The whole of \<^verbatim>\<open>Request\<close>; \<open>others\<close> is what the other goroutines do between the
  caller's unlock and its receive.
\<close>

definition Request ::
  "string \<Rightarrow> 64 word \<Rightarrow> 32 word \<Rightarrow> byte list \<Rightarrow> wres \<Rightarrow> wres \<Rightarrow> error option \<Rightarrow> unit prog
     \<Rightarrow> (byte list \<times> error option) prog" where
  "Request name off sz hsh wr1 wr2 fr others =
     seq (Request_send name off sz hsh wr1 wr2 fr) (\<lambda>p.
       case p of
         Returned v e \<Rightarrow> ret (v, e)
       | Waiting rc \<Rightarrow> seq others (\<lambda>_. Request_recv rc))"

text \<open>\<^verbatim>\<open>time.Since\<close>: the difference of two clock readings, saturating in 64 bits.\<close>

definition Since :: "time \<Rightarrow> time \<Rightarrow> duration" where
  "Since now t = word_of_int (max (- (2 ^ 63)) (min (2 ^ 63 - 1) (now - t)))"

datatype ping_phase = PReturned duration bool | PWaiting nat time

definition Ping_send :: "time \<Rightarrow> wres \<Rightarrow> error option \<Rightarrow> ping_phase prog" where
  "Ping_send t0 wr fr =
     seq Lock (\<lambda>_.
     seq make_chan (\<lambda>rc.
     seq (awaiting_store rc) (\<lambda>_.
     seq (gets nextId) (\<lambda>n.
     seq (codec_write (WHeader \<lparr>version = 0, msgID = n, msgType = messageTypePing\<rparr>) wr) (\<lambda>_.
     seq (flush fr) (\<lambda>e.
     seq (gets (\<lambda>c. werr (mwriter c))) (\<lambda>we.
       if e \<noteq> None \<or> we \<noteq> None then
         seq Unlock (\<lambda>_.
         seq close (\<lambda>_. ret (PReturned 0 False)))
       else
         seq advance_nextId (\<lambda>_.
         seq Unlock (\<lambda>_. ret (PWaiting rc t0))))))))))"

definition Ping_recv :: "nat \<Rightarrow> time \<Rightarrow> time \<Rightarrow> (duration \<times> bool) prog" where
  "Ping_recv rc t0 now = seq (chan_recv rc) (\<lambda>(_, ok). ret (Since now t0, ok))"

definition Ping :: "time \<Rightarrow> wres \<Rightarrow> error option \<Rightarrow> unit prog \<Rightarrow> time \<Rightarrow> (duration \<times> bool) prog" where
  "Ping t0 wr fr others now =
     seq (Ping_send t0 wr fr) (\<lambda>p.
       case p of
         PReturned d ok \<Rightarrow> ret (d, ok)
       | PWaiting rc t \<Rightarrow> seq others (\<lambda>_. Ping_recv rc t now))"

definition Stop :: "unit prog" where
  "Stop = ret ()"

subsection \<open>The reader loop\<close>

definition zero_header :: header where
  "zero_header = \<lparr>version = 0, msgID = 0, msgType = 0\<rparr>"

definition zero_request :: request where
  "zero_request = \<lparr>req_name = [], req_offset = 0, req_size = 0, req_hash = []\<rparr>"

definition receiver_Index :: "FileInfo list \<Rightarrow> unit prog" where
  "receiver_Index files = modify (\<lambda>c. c\<lparr>calls := calls c @ [CallIndex (ID c) files]\<rparr>)"

definition receiver_Request :: "request \<Rightarrow> unit prog" where
  "receiver_Request req = modify (\<lambda>c. c\<lparr>calls := calls c @
     [CallRequest (ID c) (req_name req) (req_offset req) (req_size req) (req_hash req)]\<rparr>)"

definition buffers_Put :: "byte list \<Rightarrow> unit prog" where
  "buffers_Put data = modify (\<lambda>c. c\<lparr>pool := pool c @ [data]\<rparr>)"

text \<open>
  The lookup, delivery and removal that the \<^verbatim>\<open>Response\<close> and \<^verbatim>\<open>Pong\<close> cases share
  (lines 230 to 241 and 254 to 265); \<open>mk\<close> builds the value that is sent, at the point
  where the source builds it. A read of a nil map finds nothing, and \<^verbatim>\<open>delete\<close> on a nil
  map does nothing.
\<close>

definition lookup_awaiting :: "int \<Rightarrow> Connection \<Rightarrow> nat option" where
  "lookup_awaiting mid c = (case awaiting c of None \<Rightarrow> None | Some m \<Rightarrow> map_of m mid)"

definition delete_awaiting :: "int \<Rightarrow> unit prog" where
  "delete_awaiting mid = modify (\<lambda>c. c\<lparr>awaiting := map_option (AList.delete mid) (awaiting c)\<rparr>)"

definition deliver :: "int \<Rightarrow> asyncResult prog \<Rightarrow> unit prog" where
  "deliver mid mk =
     seq RLock (\<lambda>_.
     seq (gets (lookup_awaiting mid)) (\<lambda>found.
     seq RUnlock (\<lambda>_.
       case found of
         None \<Rightarrow> ret ()
       | Some rc \<Rightarrow>
           seq mk (\<lambda>v.
           seq (chan_send rc v) (\<lambda>_.
           seq (chan_close rc) (\<lambda>_.
           seq Lock (\<lambda>_.
           seq (delete_awaiting mid) (\<lambda>_.
           Unlock))))))))"

text \<open>
  \<^verbatim>\<open>processRequest\<close> on the reader's goroutine: it reads the request and, if that
  worked, starts a goroutine (\<open>Some req\<close>), which is \<open>processRequest_go\<close> below.
\<close>

definition processRequest :: "request rd \<Rightarrow> (request option) prog" where
  "processRequest qr =
     seq (mr_read zero_request qr) (\<lambda>req.
     seq (gets (\<lambda>c. rerr (mreader c))) (\<lambda>re.
       if re \<noteq> None then seq close (\<lambda>_. ret None)
       else ret (Some req)))"

definition processRequest_go ::
  "int \<Rightarrow> request \<Rightarrow> byte list \<Rightarrow> error option \<Rightarrow> wres \<Rightarrow> wres \<Rightarrow> error option \<Rightarrow> unit prog" where
  "processRequest_go mid req data receiver_err wr1 wr2 fr =
     seq (receiver_Request req) (\<lambda>_.
     seq Lock (\<lambda>_.
     seq (codec_write (WUint32Header \<lparr>version = 0, msgID = mid, msgType = messageTypeResponse\<rparr>) wr1) (\<lambda>_.
     seq (codec_write (WResponse data) wr2) (\<lambda>_.
     seq (flush fr) (\<lambda>e.
     seq Unlock (\<lambda>_.
     seq (buffers_Put data) (\<lambda>_.
     seq (gets (\<lambda>c. werr (mwriter c))) (\<lambda>we.
       if we \<noteq> None \<or> e \<noteq> None then close else ret ()))))))))"

text \<open>
  The switch on the message type (lines 209 to 270). The result is the goroutine that
  the \<^verbatim>\<open>Request\<close> case has started, if any.
\<close>

definition dispatch ::
  "header \<Rightarrow> FileInfo list rd \<Rightarrow> request rd \<Rightarrow> byte list rd \<Rightarrow> wres \<Rightarrow> error option
     \<Rightarrow> ((int \<times> request) option) prog" where
  "dispatch hdr ir qr sr wr fr =
    (if msgType hdr = messageTypeIndex then
       seq (mr_read [] ir) (\<lambda>files.
       seq (gets (\<lambda>c. rerr (mreader c))) (\<lambda>re.
       seq (if re \<noteq> None then close else receiver_Index files) (\<lambda>_. ret None)))
     else if msgType hdr = messageTypeRequest then
       seq (processRequest qr) (\<lambda>started.
       seq (gets (\<lambda>c. rerr (mreader c) \<noteq> None \<or> werr (mwriter c) \<noteq> None)) (\<lambda>bad.
       seq (if bad then close else ret ()) (\<lambda>_.
       ret (map_option (Pair (msgID hdr)) started))))
     else if msgType hdr = messageTypeResponse then
       seq (mr_read [] sr) (\<lambda>data.
       seq (gets (\<lambda>c. rerr (mreader c))) (\<lambda>re.
       seq (if re \<noteq> None then close
            else deliver (msgID hdr)
                   (seq (gets (\<lambda>c. rerr (mreader c))) (\<lambda>e. ret \<lparr>val = data, err = e\<rparr>))) (\<lambda>_.
       ret None)))
     else if msgType hdr = messageTypePing then
       seq Lock (\<lambda>_.
       seq (codec_write (WUint32Header \<lparr>version = 0, msgID = msgID hdr, msgType = messageTypePong\<rparr>) wr) (\<lambda>_.
       seq (flush fr) (\<lambda>e.
       seq Unlock (\<lambda>_.
       seq (gets (\<lambda>c. werr (mwriter c))) (\<lambda>we.
       seq (if e \<noteq> None \<or> we \<noteq> None then close else ret ()) (\<lambda>_. ret None))))))
     else if msgType hdr = messageTypePong then
       seq (deliver (msgID hdr) (ret \<lparr>val = [], err = None\<rparr>)) (\<lambda>_. ret None)
     else
       seq close (\<lambda>_. ret None))"

text \<open>
  One pass through the body of \<^verbatim>\<open>readerLoop\<close>. The first component of the result is
  \<open>False\<close> where the source leaves the loop with \<^verbatim>\<open>break\<close>.
\<close>

definition readerLoop_body ::
  "header rd \<Rightarrow> time \<Rightarrow> FileInfo list rd \<Rightarrow> request rd \<Rightarrow> byte list rd \<Rightarrow> wres \<Rightarrow> error option
     \<Rightarrow> (bool \<times> (int \<times> request) option) prog" where
  "readerLoop_body hr now ir qr sr wr fr =
     seq (mr_read zero_header hr) (\<lambda>hdr.
     seq (gets (\<lambda>c. rerr (mreader c))) (\<lambda>re.
       if re \<noteq> None then seq close (\<lambda>_. ret (False, None))
       else if version hdr \<noteq> 0 then seq close (\<lambda>_. ret (False, None))
       else
         seq Lock (\<lambda>_.
         seq (modify (\<lambda>c. c\<lparr>lastReceive := now\<rparr>)) (\<lambda>_.
         seq Unlock (\<lambda>_.
         seq (dispatch hdr ir qr sr wr fr) (\<lambda>started. ret (True, started)))))))"

subsection \<open>The pinger loop\<close>

definition pingTimeout :: duration where
  "pingTimeout = 30 * 1000000000"

definition pingIdleTime :: duration where
  "pingIdleTime = 5 * 60 * 1000000000"

text \<open>
  The \<^verbatim>\<open>select\<close> of lines 308 to 315. Its argument is what the goroutine's \<^verbatim>\<open>c.Ping()\<close>
  has returned by the time \<^verbatim>\<open>time.After(pingTimeout)\<close> fires, \<open>None\<close> if it has not
  returned by then; the goroutine sends the latency on \<^verbatim>\<open>rc\<close> only when \<^verbatim>\<open>ok\<close> holds.
  A \<^verbatim>\<open>time.Duration\<close> is an \<^verbatim>\<open>int64\<close>: the sum wraps and the division truncates
  towards zero.
\<close>

definition pinger_select :: "(duration \<times> bool) option \<Rightarrow> unit prog" where
  "pinger_select pinged =
     (case pinged of
        Some (lat, True) \<Rightarrow>
          seq Lock (\<lambda>_.
          seq (modify (\<lambda>c. c\<lparr>peerLatency := word_of_int (sint (peerLatency c + lat) sdiv 2)\<rparr>)) (\<lambda>_.
          Unlock))
      | _ \<Rightarrow> close)"

text \<open>
  One pass through the body of \<^verbatim>\<open>pingerLoop\<close>; \<open>ping\<close> runs the goroutine's
  \<^verbatim>\<open>c.Ping()\<close> together with whatever else happens until the \<^verbatim>\<open>select\<close> is decided.
\<close>

definition pingerLoop_body :: "time \<Rightarrow> ((duration \<times> bool) option) prog \<Rightarrow> unit prog" where
  "pingerLoop_body now ping =
     seq RLock (\<lambda>_.
     seq (gets lastReceive) (\<lambda>lr.
     seq RUnlock (\<lambda>_.
       if pingIdleTime <s Since now lr then seq ping pinger_select
       else ret ())))"

subsection \<open>Statistics\<close>

text \<open>
  \<^verbatim>\<open>float64\<close> arithmetic as far as \<^verbatim>\<open>Statistics\<close> uses it: a value is a rational, an
  infinity or a NaN, and every operation rounds its exact result to the nearest binary64
  value, ties to even. (The sign of a zero is not kept: no divisor here can be a negative
  zero, and a zero of either sign converts to the integer 0.)
\<close>

datatype f64 = Fin rat | PInf | NInf | NaN

text \<open>The number of binary digits of a positive integer, and the exponent of the power of two
  at or below a positive rational.\<close>

function bitlen_int :: "int \<Rightarrow> int" where
  "bitlen_int n = (if n \<le> 0 then 0 else 1 + bitlen_int (n div 2))"
  by pat_completeness auto
termination
  by (relation "measure nat") auto

definition binary_exponent :: "rat \<Rightarrow> int" where
  "binary_exponent a =
     (if 1 \<le> a then bitlen_int \<lfloor>a\<rfloor> - 1
      else - bitlen_int (\<lceil>1 / a\<rceil> - 1))"

definition round_half_even :: "rat \<Rightarrow> int" where
  "round_half_even x =
     (let f = \<lfloor>x\<rfloor>; d = x - of_int f
      in if d < 1 / 2 then f else if 1 / 2 < d then f + 1 else if even f then f else f + 1)"

definition round_f64 :: "rat \<Rightarrow> f64" where
  "round_f64 x =
     (if x = 0 then Fin 0
      else
        let a = \<bar>x\<bar>;
            e = max (binary_exponent a) (- 1022);
            u = 2 powi (e - 52);
            r = of_int (round_half_even (a / u)) * u
        in if 2 powi 1024 \<le> r then (if 0 < x then PInf else NInf)
           else Fin (if 0 < x then r else - r))"

definition f64_of_int :: "int \<Rightarrow> f64" where
  "f64_of_int n = round_f64 (of_int n)"

fun f64_add :: "f64 \<Rightarrow> f64 \<Rightarrow> f64" where
  "f64_add (Fin a) (Fin b) = round_f64 (a + b)"
| "f64_add NaN _ = NaN"
| "f64_add _ NaN = NaN"
| "f64_add PInf NInf = NaN"
| "f64_add NInf PInf = NaN"
| "f64_add PInf _ = PInf"
| "f64_add NInf _ = NInf"
| "f64_add _ PInf = PInf"
| "f64_add _ NInf = NInf"

fun f64_div :: "f64 \<Rightarrow> f64 \<Rightarrow> f64" where
  "f64_div (Fin a) (Fin b) =
     (if b = 0 then (if a = 0 then NaN else if 0 < a then PInf else NInf)
      else round_f64 (a / b))"
| "f64_div NaN _ = NaN"
| "f64_div _ NaN = NaN"
| "f64_div (Fin a) _ = Fin 0"
| "f64_div PInf (Fin b) = (if 0 \<le> b then PInf else NInf)"
| "f64_div NInf (Fin b) = (if 0 \<le> b then NInf else PInf)"
| "f64_div _ _ = NaN"

text \<open>
  \<^verbatim>\<open>int(f)\<close>: the fraction is discarded; where the value does not fit the 64-bit
  \<^verbatim>\<open>int\<close> the conversion succeeds with a value that depends on the implementation, which
  is the parameter \<open>impl\<close>.
\<close>

definition f64_to_int :: "(f64 \<Rightarrow> int) \<Rightarrow> f64 \<Rightarrow> int" where
  "f64_to_int impl f =
     (case f of
        Fin x \<Rightarrow>
          (let t = (if 0 \<le> x then \<lfloor>x\<rfloor> else \<lceil>x\<rceil>)
           in if - (2 ^ 63) \<le> t \<and> t < 2 ^ 63 then t else impl f)
      | _ \<Rightarrow> impl f)"

text \<open>
  \<^verbatim>\<open>Duration.Seconds\<close> of the standard library:
  \<^verbatim>\<open>sec := d / Second; nsec := d % Second; return float64(sec) + float64(nsec)/1e9\<close>.
\<close>

definition Seconds :: "duration \<Rightarrow> f64" where
  "Seconds d =
     f64_add (f64_of_int (sint d sdiv 1000000000))
             (f64_div (f64_of_int (sint d smod 1000000000)) (Fin 1000000000))"

text \<open>
  \<^verbatim>\<open>Statistics\<close> reads the clock twice: \<open>now1\<close> inside \<^verbatim>\<open>time.Since\<close>, \<open>now2\<close> for the
  \<^verbatim>\<open>At\<close> of the new snapshot. The deferred \<^verbatim>\<open>Unlock\<close> runs as the function returns.
\<close>

definition Statistics :: "(f64 \<Rightarrow> int) \<Rightarrow> time \<Rightarrow> time \<Rightarrow> Statistics prog" where
  "Statistics impl now1 now2 =
     seq Lock (\<lambda>_.
     seq (gets (\<lambda>c. Seconds (Since now1 (At (lastStatistics c))))) (\<lambda>secs.
     seq (gets (\<lambda>c.
        \<lparr>At = now2,
         InBytesTotal = rtot (mreader c),
         InBytesPerSec = f64_to_int impl
           (f64_div (f64_of_int (rtot (mreader c) - InBytesTotal (lastStatistics c))) secs),
         OutBytesTotal = wtot (mwriter c),
         OutBytesPerSec = f64_to_int impl
           (f64_div (f64_of_int (wtot (mwriter c) - OutBytesTotal (lastStatistics c))) secs),
         Latency = peerLatency c\<rparr>)) (\<lambda>stats.
     seq (modify (\<lambda>c. c\<lparr>lastStatistics := stats\<rparr>)) (\<lambda>_.
     seq Unlock (\<lambda>_. ret stats)))))"

subsection \<open>Construction and runs\<close>

text \<open>
  \<^verbatim>\<open>NewConnection\<close>: \<^verbatim>\<open>flate.NewWriter\<close> fails only for an invalid level, so the
  \<^verbatim>\<open>panic\<close> is not reached. The two loops it starts are the steps below.
\<close>

definition NewConnection :: "string \<Rightarrow> time \<Rightarrow> time \<Rightarrow> Connection" where
  "NewConnection nodeID now1 now2 =
     \<lparr>mutex = Free,
      ID = nodeID,
      mreader = \<lparr>rtot = 0, rerr = None\<rparr>,
      mwriter = \<lparr>wout = [], wtot = 0, werr = None\<rparr>,
      closed = False,
      awaiting = Some [],
      nextId = 0,
      lastReceive = now1,
      peerLatency = 0,
      lastStatistics = \<lparr>At = now2, InBytesTotal = 0, InBytesPerSec = 0,
                        OutBytesTotal = 0, OutBytesPerSec = 0, Latency = 0\<rparr>,
      chans = [],
      calls = [],
      pool = []\<rparr>"

text \<open>
  What can happen to a connection, one entry per piece of code that runs without giving
  way to another goroutine in this model, each with what the environment supplies to it.
\<close>

datatype action =
    AIndex "FileInfo list" wres wres "error option"
  | ARequest string "64 word" "32 word" "byte list" wres wres "error option"
  | APing time wres "error option"
  | AStop
  | AClose
  | AReader "header rd" time "FileInfo list rd" "request rd" "byte list rd" wres "error option"
  | AAnswer int request "byte list" "error option" wres wres "error option"
  | APingerSelect "(duration \<times> bool) option"
  | AStatistics "f64 \<Rightarrow> int" time time

fun step :: "action \<Rightarrow> unit prog" where
  "step (AIndex idx wr1 wr2 fr) = Index idx wr1 wr2 fr"
| "step (ARequest name off sz hsh wr1 wr2 fr) = seq (Request_send name off sz hsh wr1 wr2 fr) (\<lambda>_. ret ())"
| "step (APing t0 wr fr) = seq (Ping_send t0 wr fr) (\<lambda>_. ret ())"
| "step AStop = Stop"
| "step AClose = close"
| "step (AReader hr now ir qr sr wr fr) = seq (readerLoop_body hr now ir qr sr wr fr) (\<lambda>_. ret ())"
| "step (AAnswer mid req data receiver_err wr1 wr2 fr) = processRequest_go mid req data receiver_err wr1 wr2 fr"
| "step (APingerSelect pinged) = pinger_select pinged"
| "step (AStatistics impl now1 now2) = seq (Statistics impl now1 now2) (\<lambda>_. ret ())"

fun exec :: "action list \<Rightarrow> unit prog" where
  "exec [] = ret ()"
| "exec (a # as) = seq (step a) (\<lambda>_. exec as)"

subsection \<open>Notions used by the properties\<close>

text \<open>The peer IDs of the close notifications among the calls made on the receiver.\<close>

fun close_ids :: "call list \<Rightarrow> string list" where
  "close_ids [] = []"
| "close_ids (CallClose n # ks) = n # close_ids ks"
| "close_ids (_ # ks) = close_ids ks"

text \<open>The channel heap after the channels \<open>chs\<close> have been closed.\<close>

definition close_all :: "nat list \<Rightarrow> chan list \<Rightarrow> chan list" where
  "close_all chs cs = fold (\<lambda>rc cs. cs[rc := (cs ! rc)\<lparr>chclosed := True\<rparr>]) chs cs"

text \<open>The state that the first \<^verbatim>\<open>close()\<close> leaves.\<close>

definition shut :: "Connection \<Rightarrow> Connection" where
  "shut c = c\<lparr>closed := True,
              awaiting := None,
              chans := close_all (range_awaiting c) (chans c),
              calls := calls c @ [CallClose (ID c)]\<rparr>"

text \<open>
  What holds of a connection between two actions: the lock is free; the table is nil
  exactly when the connection is closed; the channels in the table are distinct, open and
  have not been delivered to; no channel has had more than one value, and no delivered
  value carries an error; the counter is within its twelve bits; the receiver has been
  told of the close exactly if the connection is closed.
\<close>

definition conn_inv :: "Connection \<Rightarrow> bool" where
  "conn_inv c \<longleftrightarrow>
     mutex c = Free \<and>
     (closed c \<longleftrightarrow> awaiting c = None) \<and>
     distinct (range_awaiting c) \<and>
     (\<forall>rc\<in>set (range_awaiting c).
        rc < length (chans c) \<and> \<not> chclosed (chans c ! rc) \<and> sent (chans c ! rc) = []) \<and>
     (\<forall>ch\<in>set (chans c). length (sent ch) \<le> 1 \<and> (\<forall>v\<in>set (sent ch). err v = None)) \<and>
     0 \<le> nextId c \<and> nextId c < 4096 \<and>
     close_ids (calls c) = (if closed c then [ID c] else [])"

section \<open>Properties\<close>

subsection \<open>Stop\<close>

text \<open>
  C10. \<^verbatim>\<open>Stop()\<close> has an empty body: from every state of the connection, open or closed,
  with the lock free or held, it returns at once and leaves every field as it was (the
  closed flag, the table of pending correlations, what has been written, the calls made
  on the receiver).
\<close>

theorem Stop_leaves_state: "Stop c = Done ((), c)"
  by (simp add: Stop_def ret_def)

end
